theory Spec2Isabelle
  imports Main
begin

section \<open>The hero section component \<open>PhysiotherapyHero.tsx\<close>\<close>

subsection \<open>JavaScript operators the component uses\<close>

text \<open>
  An optional property (\<open>title?: string\<close>) is an \<open>option\<close>: \<open>None\<close> is \<open>undefined\<close>.
  \<open>a ?? b\<close> is \<open>b\<close> only when \<open>a\<close> is \<open>undefined\<close>; a string is truthy when it is
  not empty; \<open>a || b\<close> is \<open>b\<close> when \<open>a\<close> is \<open>undefined\<close> or the empty string.
\<close>

definition nullish :: "'a option \<Rightarrow> 'a \<Rightarrow> 'a" where
  "nullish a b = (case a of None \<Rightarrow> b | Some v \<Rightarrow> v)"

definition truthy :: "string \<Rightarrow> bool" where
  "truthy s = (s \<noteq> [])"

definition js_or :: "string option \<Rightarrow> string \<Rightarrow> string" where
  "js_or a b = (case a of None \<Rightarrow> b | Some s \<Rightarrow> if truthy s then s else b)"

subsection \<open>Rendered markup\<close>

text \<open>
  A JSX expression evaluates to a tree of elements: a tag, its properties in the order
  written, and its children. A string in child position is a text node; the empty string
  is what \<open>s && e\<close> leaves there when \<open>s\<close> is empty.
\<close>

datatype prop_val = PStr string | PNum int | PBool bool

datatype jsx = Element string "(string \<times> prop_val) list" "jsx list" | JText string

definition js_and :: "string \<Rightarrow> jsx \<Rightarrow> jsx" where
  "js_and s e = (if truthy s then e else JText s)"

fun is_element :: "string \<Rightarrow> jsx \<Rightarrow> bool" where
  "is_element t (Element n ps cs) = (n = t)"
| "is_element t (JText s) = False"

fun prop_of :: "string \<Rightarrow> jsx \<Rightarrow> prop_val option" where
  "prop_of k (Element n ps cs) = map_of ps k"
| "prop_of k (JText s) = None"

fun text_of :: "jsx \<Rightarrow> string" where
  "text_of (JText s) = s"
| "text_of (Element n ps cs) = concat (map text_of cs)"

fun elems :: "string \<Rightarrow> jsx \<Rightarrow> jsx list" where
  "elems t (JText s) = []"
| "elems t (Element n ps cs) =
     (if n = t then [Element n ps cs] else []) @ concat (map (elems t) cs)"

subsection \<open>Configuration\<close>

datatype Size = Large | Medium | Small

text \<open>The module constant \<open>size\<close> (named \<open>size_default\<close> here: \<open>size\<close> is taken in HOL).\<close>

definition size_default :: Size where
  "size_default = Large"

record HeroContent =
  title :: string
  description :: string
  ctaText :: string
  ctaUrl :: string
  secondaryCtaText :: string
  secondaryCtaUrl :: string
  heroImage :: string
  heroImageAlt :: string
  logoImage :: string

text \<open>
  \<open>businessInfo\<close> is imported from \<open>@/lib/data/business-info\<close>; its \<open>bookingUrl\<close> is the
  parameter \<open>bookingUrl\<close>, undefined or a string.
\<close>

definition heroContent :: "string option \<Rightarrow> HeroContent" where
  "heroContent bookingUrl = \<lparr>
     title = ''Move Better, Feel Better, Live Better'',
     description = ''Expert physiotherapy care tailored to your recovery and performance goals. Our evidence-based treatments help you return to the activities you love.'',
     ctaText = ''Book Your Assessment'',
     ctaUrl = js_or bookingUrl ''/contact'',
     secondaryCtaText = ''Learn More'',
     secondaryCtaUrl = ''/about'',
     heroImage = ''https://images.unsplash.com/photo-1576091160399-112ba8d25d1d?q=80&w=2070'',
     heroImageAlt = ''Physiotherapist helping patient with rehabilitation exercises'',
     logoImage = ''/uploads/Pro-Active-Therapy.gif'' \<rparr>"

text \<open>
  \<open>sizeClasses\<close> is an object with three keys; \<open>sizeClasses[k]\<close> is the lookup
  \<open>map_of sizeClasses k\<close>, which is \<open>undefined\<close> for a key that is not there.
\<close>

definition sizeClasses :: "(Size \<times> string) list" where
  "sizeClasses =
     [(Large, ''min-h-[600px] md:min-h-[700px] lg:min-h-[800px]''),
      (Medium, ''min-h-[500px] md:min-h-[600px]''),
      (Small, ''min-h-[400px] md:min-h-[500px]'')]"

subsection \<open>Props\<close>

text \<open>The field \<open>size\<close> of the interface is \<open>size_p\<close> here.\<close>

record PhysiotherapyHeroProps =
  title :: "string option"
  description :: "string option"
  heroImage :: "string option"
  heroImageAlt :: "string option"
  ctaText :: "string option"
  ctaUrl :: "string option"
  secondaryCtaText :: "string option"
  secondaryCtaUrl :: "string option"
  size_p :: "Size option"
  className :: "string option"

text \<open>The default argument \<open>{}\<close>: every property undefined.\<close>

definition empty_props :: PhysiotherapyHeroProps where
  "empty_props = \<lparr>
     title = None, description = None, heroImage = None, heroImageAlt = None,
     ctaText = None, ctaUrl = None, secondaryCtaText = None, secondaryCtaUrl = None,
     size_p = None, className = None \<rparr>"

subsection \<open>The resolved display values\<close>

definition displayTitle :: "string option \<Rightarrow> PhysiotherapyHeroProps \<Rightarrow> string" where
  "displayTitle bookingUrl props =
     nullish (PhysiotherapyHeroProps.title props) (HeroContent.title (heroContent bookingUrl))"

definition displayDescription :: "string option \<Rightarrow> PhysiotherapyHeroProps \<Rightarrow> string" where
  "displayDescription bookingUrl props =
     nullish (PhysiotherapyHeroProps.description props)
       (HeroContent.description (heroContent bookingUrl))"

definition displayImage :: "string option \<Rightarrow> PhysiotherapyHeroProps \<Rightarrow> string" where
  "displayImage bookingUrl props =
     nullish (PhysiotherapyHeroProps.heroImage props)
       (HeroContent.heroImage (heroContent bookingUrl))"

definition displayImageAlt :: "string option \<Rightarrow> PhysiotherapyHeroProps \<Rightarrow> string" where
  "displayImageAlt bookingUrl props =
     nullish (PhysiotherapyHeroProps.heroImageAlt props)
       (HeroContent.heroImageAlt (heroContent bookingUrl))"

definition displayCtaText :: "string option \<Rightarrow> PhysiotherapyHeroProps \<Rightarrow> string" where
  "displayCtaText bookingUrl props =
     nullish (PhysiotherapyHeroProps.ctaText props)
       (HeroContent.ctaText (heroContent bookingUrl))"

definition displayCtaUrl :: "string option \<Rightarrow> PhysiotherapyHeroProps \<Rightarrow> string" where
  "displayCtaUrl bookingUrl props =
     nullish (PhysiotherapyHeroProps.ctaUrl props)
       (HeroContent.ctaUrl (heroContent bookingUrl))"

definition displaySecondaryCtaText :: "string option \<Rightarrow> PhysiotherapyHeroProps \<Rightarrow> string" where
  "displaySecondaryCtaText bookingUrl props =
     nullish (PhysiotherapyHeroProps.secondaryCtaText props)
       (HeroContent.secondaryCtaText (heroContent bookingUrl))"

definition displaySecondaryCtaUrl :: "string option \<Rightarrow> PhysiotherapyHeroProps \<Rightarrow> string" where
  "displaySecondaryCtaUrl bookingUrl props =
     nullish (PhysiotherapyHeroProps.secondaryCtaUrl props)
       (HeroContent.secondaryCtaUrl (heroContent bookingUrl))"

definition displaySize :: "PhysiotherapyHeroProps \<Rightarrow> Size" where
  "displaySize props = nullish (size_p props) size_default"

subsection \<open>The component\<close>

text \<open>
  \<open>cn\<close> is imported from \<open>@/lib/utils\<close>: it is the parameter \<open>cn\<close>, from the list of
  its arguments (a class string or \<open>undefined\<close>) to the class string. The two call-to-action
  slots are the expressions \<open>text && url && <Link ...>\<close> of the source.
\<close>

definition primaryCta :: "string \<Rightarrow> string \<Rightarrow> jsx" where
  "primaryCta text url =
     js_and text (js_and url
       (Element ''Link''
          [(''href'', PStr url),
           (''className'', PStr ''group relative flex min-h-12 items-center justify-center rounded-lg bg-primary px-8 py-3 font-semibold text-white transition-colors ease-in-out hover:bg-primary/90 focus-visible:outline-none focus-visible:ring-2 focus-visible:ring-ring focus-visible:ring-offset-2'')]
          [Element ''span'' [(''className'', PStr ''flex flex-1 items-center justify-center gap-x-2'')]
             [Element ''span'' [(''className'', PStr ''flex flex-row items-center gap-x-1'')]
                [JText text,
                 Element ''span'' [(''className'', PStr ''relative inline-block h-4 w-4'')]
                   [Element ''ChevronRight''
                      [(''className'', PStr ''absolute left-0 top-0 h-4 w-4 transition-[transform,opacity] duration-200 group-hover:translate-x-1 group-hover:opacity-0''),
                       (''aria-hidden'', PStr ''true'')] [],
                    Element ''ArrowRight''
                      [(''className'', PStr ''absolute left-0 top-0 h-4 w-4 -translate-x-1 opacity-0 transition-[transform,opacity] duration-200 group-hover:translate-x-0 group-hover:opacity-100''),
                       (''aria-hidden'', PStr ''true'')] []]]]]))"

definition secondaryCta :: "string \<Rightarrow> string \<Rightarrow> jsx" where
  "secondaryCta text url =
     js_and text (js_and url
       (Element ''Link''
          [(''href'', PStr url),
           (''className'', PStr ''flex min-h-12 items-center justify-center rounded-lg border-2 border-border bg-background px-8 py-3 font-semibold text-foreground transition-colors hover:bg-accent hover:text-accent-foreground focus-visible:outline-none focus-visible:ring-2 focus-visible:ring-ring focus-visible:ring-offset-2'')]
          [JText text]))"

definition render :: "(string option list \<Rightarrow> string) \<Rightarrow> string option \<Rightarrow> PhysiotherapyHeroProps \<Rightarrow> jsx" where
  "render cn bookingUrl props =
     Element ''section''
       [(''className'', PStr (cn [Some ''relative overflow-hidden bg-background'', className props]))]
       [Element ''div'' [(''className'', PStr ''mx-auto max-w-7xl'')]
          [Element ''div''
             [(''className'', PStr (cn [Some ''grid gap-8 lg:grid-cols-2 lg:gap-16'',
                                        map_of sizeClasses (displaySize props)]))]
             [Element ''div'' [(''className'', PStr ''flex flex-col justify-center px-6 py-12 md:px-8 lg:py-16'')]
                [Element ''div'' [(''className'', PStr ''mb-8'')]
                   [Element ''Image''
                      [(''src'', PStr (HeroContent.logoImage (heroContent bookingUrl))),
                       (''alt'', PStr ''Pro-Active Therapy Logo''),
                       (''width'', PNum 200),
                       (''height'', PNum 200),
                       (''className'', PStr ''h-auto w-48 md:w-56 lg:w-64''),
                       (''priority'', PBool True)] []],
                 Element ''h1'' [(''className'', PStr ''mb-6 text-balance font-heading text-4xl font-bold leading-tight text-foreground md:text-5xl lg:text-6xl'')]
                   [JText (displayTitle bookingUrl props)],
                 Element ''p'' [(''className'', PStr ''mb-8 max-w-xl text-pretty text-lg text-muted-foreground md:text-xl'')]
                   [JText (displayDescription bookingUrl props)],
                 Element ''div'' [(''className'', PStr ''flex flex-col gap-4 sm:flex-row sm:items-center'')]
                   [primaryCta (displayCtaText bookingUrl props) (displayCtaUrl bookingUrl props),
                    secondaryCta (displaySecondaryCtaText bookingUrl props)
                                 (displaySecondaryCtaUrl bookingUrl props)]],
              Element ''div'' [(''className'', PStr ''relative overflow-hidden lg:rounded-l-3xl'')]
                [Element ''div'' [(''className'', PStr ''absolute inset-0 bg-gradient-to-br from-primary/10 to-transparent'')] [],
                 Element ''Image''
                   [(''src'', PStr (displayImage bookingUrl props)),
                    (''alt'', PStr (displayImageAlt bookingUrl props)),
                    (''fill'', PBool True),
                    (''className'', PStr ''object-cover''),
                    (''priority'', PBool True),
                    (''sizes'', PStr ''(max-width: 1024px) 100vw, 50vw'')] []]]]]"

text \<open>
  \<open>PhysiotherapyHero(props = {})\<close>: an undefined argument is replaced by the empty
  record before the body runs.
\<close>

definition PhysiotherapyHero ::
  "(string option list \<Rightarrow> string) \<Rightarrow> string option \<Rightarrow> PhysiotherapyHeroProps option \<Rightarrow> jsx" where
  "PhysiotherapyHero cn bookingUrl arg = render cn bookingUrl (nullish arg empty_props)"

section \<open>Properties\<close>

subsection \<open>Unfolding the component\<close>

lemmas display_defs =
  displayTitle_def displayDescription_def displayImage_def displayImageAlt_def
  displayCtaText_def displayCtaUrl_def displaySecondaryCtaText_def
  displaySecondaryCtaUrl_def displaySize_def

lemma hero_some: "PhysiotherapyHero cn b (Some p) = render cn b p"
  by (simp add: PhysiotherapyHero_def nullish_def)

lemma hero_none: "PhysiotherapyHero cn b None = render cn b empty_props"
  by (simp add: PhysiotherapyHero_def nullish_def)

lemma default_ctaUrl_nonempty: "HeroContent.ctaUrl (heroContent b) \<noteq> []"
  by (cases b) (simp_all add: heroContent_def js_or_def truthy_def)

lemma is_link_primaryCta:
  "is_element ''Link'' (primaryCta t u) \<longleftrightarrow> t \<noteq> [] \<and> u \<noteq> []"
  by (simp add: primaryCta_def js_and_def truthy_def)

lemma is_link_secondaryCta:
  "is_element ''Link'' (secondaryCta t u) \<longleftrightarrow> t \<noteq> [] \<and> u \<noteq> []"
  by (simp add: secondaryCta_def js_and_def truthy_def)

lemma elems_link_primaryCta:
  "elems ''Link'' (primaryCta t u) = (if t \<noteq> [] \<and> u \<noteq> [] then [primaryCta t u] else [])"
  by (simp add: primaryCta_def js_and_def truthy_def)

lemma elems_link_secondaryCta:
  "elems ''Link'' (secondaryCta t u) = (if t \<noteq> [] \<and> u \<noteq> [] then [secondaryCta t u] else [])"
  by (simp add: secondaryCta_def js_and_def truthy_def)

lemma omitted_primaryCta: "\<not> (t \<noteq> [] \<and> u \<noteq> []) \<Longrightarrow> primaryCta t u = JText []"
  by (auto simp add: primaryCta_def js_and_def truthy_def)

lemma omitted_secondaryCta: "\<not> (t \<noteq> [] \<and> u \<noteq> []) \<Longrightarrow> secondaryCta t u = JText []"
  by (auto simp add: secondaryCta_def js_and_def truthy_def)

lemma text_primaryCta: "text_of (primaryCta t u) = (if t \<noteq> [] \<and> u \<noteq> [] then t else [])"
  by (simp add: primaryCta_def js_and_def truthy_def)

lemma text_secondaryCta: "text_of (secondaryCta t u) = (if t \<noteq> [] \<and> u \<noteq> [] then t else [])"
  by (simp add: secondaryCta_def js_and_def truthy_def)

lemma href_primaryCta:
  "prop_of ''href'' (primaryCta t u) = (if t \<noteq> [] \<and> u \<noteq> [] then Some (PStr u) else None)"
  by (simp add: primaryCta_def js_and_def truthy_def)

lemma href_secondaryCta:
  "prop_of ''href'' (secondaryCta t u) = (if t \<noteq> [] \<and> u \<noteq> [] then Some (PStr u) else None)"
  by (simp add: secondaryCta_def js_and_def truthy_def)

lemma elems_link_render:
  "elems ''Link'' (render cn b p) =
     elems ''Link'' (primaryCta (displayCtaText b p) (displayCtaUrl b p)) @
     elems ''Link'' (secondaryCta (displaySecondaryCtaText b p) (displaySecondaryCtaUrl b p))"
  by (simp add: render_def)

lemma text_render:
  "text_of (render cn b p) =
     displayTitle b p @ displayDescription b p @
     text_of (primaryCta (displayCtaText b p) (displayCtaUrl b p)) @
     text_of (secondaryCta (displaySecondaryCtaText b p) (displaySecondaryCtaUrl b p))"
  by (simp add: render_def)

lemma elems_h1_render: "map text_of (elems ''h1'' (render cn b p)) = [displayTitle b p]"
  by (simp add: render_def primaryCta_def secondaryCta_def js_and_def)

lemma elems_p_render: "map text_of (elems ''p'' (render cn b p)) = [displayDescription b p]"
  by (simp add: render_def primaryCta_def secondaryCta_def js_and_def)

lemma elems_image_render:
  "map (prop_of ''src'') (elems ''Image'' (render cn b p)) =
     [Some (PStr (HeroContent.logoImage (heroContent b))), Some (PStr (displayImage b p))]"
  by (simp add: render_def primaryCta_def secondaryCta_def js_and_def)

lemma grid_render:
  "prop_of ''className'' (elems ''div'' (render cn b p) ! 1) =
     Some (PStr (cn [Some ''grid gap-8 lg:grid-cols-2 lg:gap-16'',
                     map_of sizeClasses (displaySize p)]))"
  by (simp add: render_def)

subsection \<open>Resolution of the display values\<close>

text \<open>
  C1 (as stated, refuted): an override equal to the empty string is not treated as
  absent. With \<open>title: ""\<close> the resolved title is the empty string, not the default title.
\<close>

theorem empty_override_is_used:
  "displayTitle None (empty_props\<lparr>PhysiotherapyHeroProps.title := Some ''''\<rparr>) = '''' \<and>
   HeroContent.title (heroContent None) \<noteq> ''''"
  by (simp add: displayTitle_def nullish_def heroContent_def empty_props_def)

text \<open>
  C1 (amended): for every props record, each resolved display field equals the override
  whenever the override is provided, the empty string included, and equals the default
  configuration value exactly when the override is undefined.
\<close>

theorem resolved_fields:
  "displayTitle b p =
     (case PhysiotherapyHeroProps.title p of
        Some v \<Rightarrow> v | None \<Rightarrow> HeroContent.title (heroContent b)) \<and>
   displayDescription b p =
     (case PhysiotherapyHeroProps.description p of
        Some v \<Rightarrow> v | None \<Rightarrow> HeroContent.description (heroContent b)) \<and>
   displayImage b p =
     (case PhysiotherapyHeroProps.heroImage p of
        Some v \<Rightarrow> v | None \<Rightarrow> HeroContent.heroImage (heroContent b)) \<and>
   displayImageAlt b p =
     (case PhysiotherapyHeroProps.heroImageAlt p of
        Some v \<Rightarrow> v | None \<Rightarrow> HeroContent.heroImageAlt (heroContent b)) \<and>
   displayCtaText b p =
     (case PhysiotherapyHeroProps.ctaText p of
        Some v \<Rightarrow> v | None \<Rightarrow> HeroContent.ctaText (heroContent b)) \<and>
   displayCtaUrl b p =
     (case PhysiotherapyHeroProps.ctaUrl p of
        Some v \<Rightarrow> v | None \<Rightarrow> HeroContent.ctaUrl (heroContent b)) \<and>
   displaySecondaryCtaText b p =
     (case PhysiotherapyHeroProps.secondaryCtaText p of
        Some v \<Rightarrow> v | None \<Rightarrow> HeroContent.secondaryCtaText (heroContent b)) \<and>
   displaySecondaryCtaUrl b p =
     (case PhysiotherapyHeroProps.secondaryCtaUrl p of
        Some v \<Rightarrow> v | None \<Rightarrow> HeroContent.secondaryCtaUrl (heroContent b)) \<and>
   displaySize p = (case size_p p of Some v \<Rightarrow> v | None \<Rightarrow> size_default)"
  by (simp add: display_defs nullish_def)

subsection \<open>The call-to-action links\<close>

text \<open>
  C2: for every props record, the \<open>Link\<close> elements of the rendered output are exactly
  those of the two call-to-action slots that are links, in that order; the primary slot
  is a link if and only if the resolved \<open>ctaText\<close> and \<open>ctaUrl\<close> are both non-empty,
  the secondary slot if and only if the resolved \<open>secondaryCtaText\<close> and
  \<open>secondaryCtaUrl\<close> are both non-empty; a slot that is not a link is the empty text
  node, which renders nothing.
\<close>

theorem cta_present_iff:
  "elems ''Link'' (PhysiotherapyHero cn b (Some p)) =
     filter (is_element ''Link'')
       [primaryCta (displayCtaText b p) (displayCtaUrl b p),
        secondaryCta (displaySecondaryCtaText b p) (displaySecondaryCtaUrl b p)] \<and>
   (is_element ''Link'' (primaryCta (displayCtaText b p) (displayCtaUrl b p)) \<longleftrightarrow>
      displayCtaText b p \<noteq> [] \<and> displayCtaUrl b p \<noteq> []) \<and>
   (is_element ''Link'' (secondaryCta (displaySecondaryCtaText b p) (displaySecondaryCtaUrl b p)) \<longleftrightarrow>
      displaySecondaryCtaText b p \<noteq> [] \<and> displaySecondaryCtaUrl b p \<noteq> []) \<and>
   (if displayCtaText b p \<noteq> [] \<and> displayCtaUrl b p \<noteq> []
    then prop_of ''href'' (primaryCta (displayCtaText b p) (displayCtaUrl b p)) =
           Some (PStr (displayCtaUrl b p)) \<and>
         text_of (primaryCta (displayCtaText b p) (displayCtaUrl b p)) = displayCtaText b p
    else primaryCta (displayCtaText b p) (displayCtaUrl b p) = JText []) \<and>
   (if displaySecondaryCtaText b p \<noteq> [] \<and> displaySecondaryCtaUrl b p \<noteq> []
    then prop_of ''href'' (secondaryCta (displaySecondaryCtaText b p) (displaySecondaryCtaUrl b p)) =
           Some (PStr (displaySecondaryCtaUrl b p)) \<and>
         text_of (secondaryCta (displaySecondaryCtaText b p) (displaySecondaryCtaUrl b p)) =
           displaySecondaryCtaText b p
    else secondaryCta (displaySecondaryCtaText b p) (displaySecondaryCtaUrl b p) = JText [])"
proof -
  let ?pt = "displayCtaText b p" and ?pu = "displayCtaUrl b p"
  let ?st = "displaySecondaryCtaText b p" and ?su = "displaySecondaryCtaUrl b p"
  have links: "elems ''Link'' (PhysiotherapyHero cn b (Some p)) =
      filter (is_element ''Link'') [primaryCta ?pt ?pu, secondaryCta ?st ?su]"
    by (simp add: hero_some elems_link_render elems_link_primaryCta elems_link_secondaryCta
          is_link_primaryCta is_link_secondaryCta)
  have prim: "if ?pt \<noteq> [] \<and> ?pu \<noteq> []
      then prop_of ''href'' (primaryCta ?pt ?pu) = Some (PStr ?pu) \<and>
           text_of (primaryCta ?pt ?pu) = ?pt
      else primaryCta ?pt ?pu = JText []"
    using omitted_primaryCta [of ?pt ?pu]
    by (simp add: href_primaryCta text_primaryCta)
  have sec: "if ?st \<noteq> [] \<and> ?su \<noteq> []
      then prop_of ''href'' (secondaryCta ?st ?su) = Some (PStr ?su) \<and>
           text_of (secondaryCta ?st ?su) = ?st
      else secondaryCta ?st ?su = JText []"
    using omitted_secondaryCta [of ?st ?su]
    by (simp add: href_secondaryCta text_secondaryCta)
  from links prim sec show ?thesis
    using is_link_primaryCta [of ?pt ?pu] is_link_secondaryCta [of ?st ?su] by blast
qed

subsection \<open>What the props can override\<close>

text \<open>
  C3 (as stated, refuted): the props have no \<open>logoImage\<close> field. With every property of
  the props record set, the hero image is the overriding one and the logo is still the
  configured file. (The class combiner plays no part and is a constant function here.)
\<close>

theorem logo_not_overridden:
  "map (prop_of ''src'')
     (elems ''Image''
        (PhysiotherapyHero (\<lambda>cs. []) None
           (Some \<lparr> title = Some ''x'', description = Some ''x'', heroImage = Some ''x'',
                   heroImageAlt = Some ''x'', ctaText = Some ''x'', ctaUrl = Some ''x'',
                   secondaryCtaText = Some ''x'', secondaryCtaUrl = Some ''x'',
                   size_p = Some Small, className = Some ''x'' \<rparr>))) =
   [Some (PStr ''/uploads/Pro-Active-Therapy.gif''), Some (PStr ''x'')]"
  by (simp add: hero_some elems_image_render displayImage_def nullish_def heroContent_def)

text \<open>
  C3 (amended): the props record has the fields \<open>title\<close>, \<open>description\<close>, \<open>heroImage\<close>,
  \<open>heroImageAlt\<close>, \<open>ctaText\<close>, \<open>ctaUrl\<close>, \<open>secondaryCtaText\<close>, \<open>secondaryCtaUrl\<close> and
  \<open>size\<close> (and \<open>className\<close>), each optional on its own: whatever the other fields are,
  a field that is absent resolves to the default. There is no \<open>logoImage\<close> override: for
  every props record the two images of the output are the configured logo and the
  resolved hero image.
\<close>

theorem overridable_fields:
  "displayTitle b (p\<lparr>PhysiotherapyHeroProps.title := None\<rparr>) = HeroContent.title (heroContent b) \<and>
   displayDescription b (p\<lparr>PhysiotherapyHeroProps.description := None\<rparr>) =
     HeroContent.description (heroContent b) \<and>
   displayImage b (p\<lparr>PhysiotherapyHeroProps.heroImage := None\<rparr>) =
     HeroContent.heroImage (heroContent b) \<and>
   displayImageAlt b (p\<lparr>PhysiotherapyHeroProps.heroImageAlt := None\<rparr>) =
     HeroContent.heroImageAlt (heroContent b) \<and>
   displayCtaText b (p\<lparr>PhysiotherapyHeroProps.ctaText := None\<rparr>) =
     HeroContent.ctaText (heroContent b) \<and>
   displayCtaUrl b (p\<lparr>PhysiotherapyHeroProps.ctaUrl := None\<rparr>) =
     HeroContent.ctaUrl (heroContent b) \<and>
   displaySecondaryCtaText b (p\<lparr>PhysiotherapyHeroProps.secondaryCtaText := None\<rparr>) =
     HeroContent.secondaryCtaText (heroContent b) \<and>
   displaySecondaryCtaUrl b (p\<lparr>PhysiotherapyHeroProps.secondaryCtaUrl := None\<rparr>) =
     HeroContent.secondaryCtaUrl (heroContent b) \<and>
   displaySize (p\<lparr>size_p := None\<rparr>) = size_default \<and>
   map (prop_of ''src'') (elems ''Image'' (PhysiotherapyHero cn b (Some p))) =
     [Some (PStr (HeroContent.logoImage (heroContent b))), Some (PStr (displayImage b p))]"
  by (simp add: display_defs nullish_def hero_some elems_image_render)

subsection \<open>The size classes\<close>

lemma size_class_range:
  "map_of sizeClasses k \<in>
     {Some ''min-h-[600px] md:min-h-[700px] lg:min-h-[800px]'',
      Some ''min-h-[500px] md:min-h-[600px]'',
      Some ''min-h-[400px] md:min-h-[500px]''}"
  by (cases k) (simp_all add: sizeClasses_def)

text \<open>
  C4: for every props record the resolved size is one of \<open>Large\<close>, \<open>Medium\<close>, \<open>Small\<close>;
  the table has exactly these three keys with three different classes; the lookup is
  defined for every size, so the undefined branch is never taken; and the class passed
  for the grid of the rendered output is one of the three height classes.
\<close>

theorem size_lookup_total:
  "displaySize p \<in> {Large, Medium, Small} \<and>
   map fst sizeClasses = [Large, Medium, Small] \<and>
   distinct (map snd sizeClasses) \<and>
   map_of sizeClasses s \<noteq> None \<and>
   (\<exists>c. map_of sizeClasses (displaySize p) = Some c \<and> c \<in> {''min-h-[600px] md:min-h-[700px] lg:min-h-[800px]'',
              ''min-h-[500px] md:min-h-[600px]'', ''min-h-[400px] md:min-h-[500px]''} \<and>
        prop_of ''className'' (elems ''div'' (PhysiotherapyHero cn b (Some p)) ! 1) =
          Some (PStr (cn [Some ''grid gap-8 lg:grid-cols-2 lg:gap-16'', Some c])))"
proof -
  have total: "map_of sizeClasses k \<noteq> None" for k
    by (cases k) (simp_all add: sizeClasses_def)
  have range: "displaySize p \<in> {Large, Medium, Small}"
    by (cases "displaySize p") simp_all
  have keys: "map fst sizeClasses = [Large, Medium, Small]"
    by (simp add: sizeClasses_def)
  have vals: "distinct (map snd sizeClasses)"
    by (simp add: sizeClasses_def)
  obtain c where c: "map_of sizeClasses (displaySize p) = Some c"
    using total [of "displaySize p"] by blast
  then have mem: "c \<in> {''min-h-[600px] md:min-h-[700px] lg:min-h-[800px]'',
              ''min-h-[500px] md:min-h-[600px]'', ''min-h-[400px] md:min-h-[500px]''}"
    using size_class_range [of "displaySize p"] by simp
  have "prop_of ''className'' (elems ''div'' (PhysiotherapyHero cn b (Some p)) ! 1) =
          Some (PStr (cn [Some ''grid gap-8 lg:grid-cols-2 lg:gap-16'', Some c]))"
    unfolding hero_some grid_render c ..
  with c mem have "\<exists>c. map_of sizeClasses (displaySize p) = Some c \<and> c \<in> {''min-h-[600px] md:min-h-[700px] lg:min-h-[800px]'',
              ''min-h-[500px] md:min-h-[600px]'', ''min-h-[400px] md:min-h-[500px]''} \<and>
        prop_of ''className'' (elems ''div'' (PhysiotherapyHero cn b (Some p)) ! 1) =
          Some (PStr (cn [Some ''grid gap-8 lg:grid-cols-2 lg:gap-16'', Some c]))"
    by blast
  with range keys vals total [of s] show ?thesis
    by blast
qed

text \<open>
  C9: when the props give no size, the resolved size is \<open>Large\<close> and the grid of the
  rendered section gets the large entry of the table.
\<close>

theorem default_size_large:
  assumes "size_p p = None"
  shows "displaySize p = Large \<and>
    map_of sizeClasses (displaySize p) =
      Some ''min-h-[600px] md:min-h-[700px] lg:min-h-[800px]'' \<and>
    prop_of ''className'' (elems ''div'' (PhysiotherapyHero cn b (Some p)) ! 1) =
      Some (PStr (cn [Some ''grid gap-8 lg:grid-cols-2 lg:gap-16'',
                      Some ''min-h-[600px] md:min-h-[700px] lg:min-h-[800px]'']))"
proof -
  have sz: "displaySize p = Large"
    using assms by (simp add: displaySize_def nullish_def size_default_def)
  have large: "map_of sizeClasses Large =
      Some ''min-h-[600px] md:min-h-[700px] lg:min-h-[800px]''"
    by (simp add: sizeClasses_def)
  have "prop_of ''className'' (elems ''div'' (PhysiotherapyHero cn b (Some p)) ! 1) =
      Some (PStr (cn [Some ''grid gap-8 lg:grid-cols-2 lg:gap-16'',
                      Some ''min-h-[600px] md:min-h-[700px] lg:min-h-[800px]'']))"
    unfolding hero_some grid_render sz large ..
  with sz large show ?thesis by simp
qed

theorem default_size_large_witness:
  "size_p empty_props = None \<and> displaySize empty_props = Large \<and>
   prop_of ''className'' (elems ''div'' (PhysiotherapyHero (\<lambda>cs. []) None (Some empty_props)) ! 1) =
     Some (PStr [])"
proof -
  have h: "size_p empty_props = None"
    by (simp add: empty_props_def)
  from default_size_large [OF h, of "\<lambda>cs. []" None] h show ?thesis
    by simp
qed

subsection \<open>Rendering with defaults\<close>

text \<open>
  C5: rendered with no overrides (no argument, or the empty record, which is the same),
  the heading is the default title, the paragraph the default description, the two links
  are labelled with the default \<open>ctaText\<close> and \<open>secondaryCtaText\<close>, and the text of the
  whole output is these four strings in this order.
\<close>

theorem no_overrides_text:
  "PhysiotherapyHero cn b (Some empty_props) = PhysiotherapyHero cn b None \<and>
   map text_of (elems ''h1'' (PhysiotherapyHero cn b None)) = [HeroContent.title (heroContent b)] \<and>
   map text_of (elems ''p'' (PhysiotherapyHero cn b None)) =
     [HeroContent.description (heroContent b)] \<and>
   map text_of (elems ''Link'' (PhysiotherapyHero cn b None)) =
     [HeroContent.ctaText (heroContent b), HeroContent.secondaryCtaText (heroContent b)] \<and>
   text_of (PhysiotherapyHero cn b None) =
     HeroContent.title (heroContent b) @ HeroContent.description (heroContent b) @
     HeroContent.ctaText (heroContent b) @ HeroContent.secondaryCtaText (heroContent b)"
proof -
  have r: "displayTitle b empty_props = HeroContent.title (heroContent b)"
    "displayDescription b empty_props = HeroContent.description (heroContent b)"
    "displayCtaText b empty_props = HeroContent.ctaText (heroContent b)"
    "displayCtaUrl b empty_props = HeroContent.ctaUrl (heroContent b)"
    "displaySecondaryCtaText b empty_props = HeroContent.secondaryCtaText (heroContent b)"
    "displaySecondaryCtaUrl b empty_props = HeroContent.secondaryCtaUrl (heroContent b)"
    by (simp_all add: display_defs nullish_def empty_props_def)
  have ne: "HeroContent.ctaText (heroContent b) \<noteq> []"
    "HeroContent.secondaryCtaText (heroContent b) \<noteq> []"
    "HeroContent.secondaryCtaUrl (heroContent b) \<noteq> []"
    by (simp_all add: heroContent_def)
  show ?thesis
    using ne default_ctaUrl_nonempty [of b]
    by (simp add: hero_some hero_none elems_h1_render elems_p_render elems_link_render
          elems_link_primaryCta elems_link_secondaryCta text_render text_primaryCta
          text_secondaryCta r)
qed

text \<open>
  C6: with an override of the title alone, every resolved field other than the title is
  its default.
\<close>

theorem title_only_override:
  "displayTitle b (empty_props\<lparr>PhysiotherapyHeroProps.title := Some t\<rparr>) = t \<and>
   displayDescription b (empty_props\<lparr>PhysiotherapyHeroProps.title := Some t\<rparr>) =
     HeroContent.description (heroContent b) \<and>
   displayImage b (empty_props\<lparr>PhysiotherapyHeroProps.title := Some t\<rparr>) =
     HeroContent.heroImage (heroContent b) \<and>
   displayImageAlt b (empty_props\<lparr>PhysiotherapyHeroProps.title := Some t\<rparr>) =
     HeroContent.heroImageAlt (heroContent b) \<and>
   displayCtaText b (empty_props\<lparr>PhysiotherapyHeroProps.title := Some t\<rparr>) =
     HeroContent.ctaText (heroContent b) \<and>
   displayCtaUrl b (empty_props\<lparr>PhysiotherapyHeroProps.title := Some t\<rparr>) =
     HeroContent.ctaUrl (heroContent b) \<and>
   displaySecondaryCtaText b (empty_props\<lparr>PhysiotherapyHeroProps.title := Some t\<rparr>) =
     HeroContent.secondaryCtaText (heroContent b) \<and>
   displaySecondaryCtaUrl b (empty_props\<lparr>PhysiotherapyHeroProps.title := Some t\<rparr>) =
     HeroContent.secondaryCtaUrl (heroContent b) \<and>
   displaySize (empty_props\<lparr>PhysiotherapyHeroProps.title := Some t\<rparr>) = size_default"
  by (simp add: display_defs nullish_def empty_props_def)

text \<open>
  C7: for the overrides \<open>{title: "Sports Injury Recovery", size: "medium"}\<close> the resolved
  title is that string, the grid gets the medium entry of the table, the description and
  the image are the defaults, and both links are there with the default labels and URLs.
\<close>

theorem sports_injury_example:
  "displayTitle b (empty_props\<lparr>PhysiotherapyHeroProps.title := Some ''Sports Injury Recovery'',
                               size_p := Some Medium\<rparr>) = ''Sports Injury Recovery'' \<and>
   map_of sizeClasses (displaySize (empty_props\<lparr>PhysiotherapyHeroProps.title := Some ''Sports Injury Recovery'',
                               size_p := Some Medium\<rparr>)) = map_of sizeClasses Medium \<and>
   prop_of ''className''
     (elems ''div'' (PhysiotherapyHero cn b
        (Some (empty_props\<lparr>PhysiotherapyHeroProps.title := Some ''Sports Injury Recovery'',
                            size_p := Some Medium\<rparr>))) ! 1) =
     Some (PStr (cn [Some ''grid gap-8 lg:grid-cols-2 lg:gap-16'',
                     Some ''min-h-[500px] md:min-h-[600px]''])) \<and>
   displayDescription b (empty_props\<lparr>PhysiotherapyHeroProps.title := Some ''Sports Injury Recovery'',
                               size_p := Some Medium\<rparr>) =
     ''Expert physiotherapy care tailored to your recovery and performance goals. Our evidence-based treatments help you return to the activities you love.'' \<and>
   displayImage b (empty_props\<lparr>PhysiotherapyHeroProps.title := Some ''Sports Injury Recovery'',
                               size_p := Some Medium\<rparr>) = HeroContent.heroImage (heroContent b) \<and>
   displayImageAlt b (empty_props\<lparr>PhysiotherapyHeroProps.title := Some ''Sports Injury Recovery'',
                               size_p := Some Medium\<rparr>) = HeroContent.heroImageAlt (heroContent b) \<and>
   map (\<lambda>e. (prop_of ''href'' e, text_of e))
     (elems ''Link'' (PhysiotherapyHero cn b
        (Some (empty_props\<lparr>PhysiotherapyHeroProps.title := Some ''Sports Injury Recovery'',
                            size_p := Some Medium\<rparr>)))) =
     [(Some (PStr (HeroContent.ctaUrl (heroContent b))), HeroContent.ctaText (heroContent b)),
      (Some (PStr (HeroContent.secondaryCtaUrl (heroContent b))),
       HeroContent.secondaryCtaText (heroContent b))] \<and>
   HeroContent.ctaText (heroContent b) = ''Book Your Assessment'' \<and>
   HeroContent.ctaUrl (heroContent b) = js_or b ''/contact'' \<and>
   HeroContent.secondaryCtaText (heroContent b) = ''Learn More'' \<and>
   HeroContent.secondaryCtaUrl (heroContent b) = ''/about''"
proof -
  let ?p = "empty_props\<lparr>PhysiotherapyHeroProps.title := Some ''Sports Injury Recovery'',
                        size_p := Some Medium\<rparr>"
  have r: "displayTitle b ?p = ''Sports Injury Recovery''"
    "displaySize ?p = Medium"
    "displayDescription b ?p = HeroContent.description (heroContent b)"
    "displayImage b ?p = HeroContent.heroImage (heroContent b)"
    "displayImageAlt b ?p = HeroContent.heroImageAlt (heroContent b)"
    "displayCtaText b ?p = HeroContent.ctaText (heroContent b)"
    "displayCtaUrl b ?p = HeroContent.ctaUrl (heroContent b)"
    "displaySecondaryCtaText b ?p = HeroContent.secondaryCtaText (heroContent b)"
    "displaySecondaryCtaUrl b ?p = HeroContent.secondaryCtaUrl (heroContent b)"
    by (simp_all add: display_defs nullish_def empty_props_def)
  have cfg: "HeroContent.ctaText (heroContent b) = ''Book Your Assessment''"
    "HeroContent.ctaUrl (heroContent b) = js_or b ''/contact''"
    "HeroContent.secondaryCtaText (heroContent b) = ''Learn More''"
    "HeroContent.secondaryCtaUrl (heroContent b) = ''/about''"
    "HeroContent.description (heroContent b) =
     ''Expert physiotherapy care tailored to your recovery and performance goals. Our evidence-based treatments help you return to the activities you love.''"
    by (simp_all add: heroContent_def)
  have medium: "map_of sizeClasses Medium = Some ''min-h-[500px] md:min-h-[600px]''"
    by (simp add: sizeClasses_def)
  have grid: "prop_of ''className'' (elems ''div'' (PhysiotherapyHero cn b (Some ?p)) ! 1) =
     Some (PStr (cn [Some ''grid gap-8 lg:grid-cols-2 lg:gap-16'',
                     Some ''min-h-[500px] md:min-h-[600px]'']))"
    unfolding hero_some grid_render r medium ..
  have ne: "HeroContent.ctaText (heroContent b) \<noteq> []"
    "HeroContent.secondaryCtaText (heroContent b) \<noteq> []"
    "HeroContent.secondaryCtaUrl (heroContent b) \<noteq> []"
    by (simp_all add: heroContent_def)
  have links: "map (\<lambda>e. (prop_of ''href'' e, text_of e))
     (elems ''Link'' (PhysiotherapyHero cn b (Some ?p))) =
     [(Some (PStr (HeroContent.ctaUrl (heroContent b))), HeroContent.ctaText (heroContent b)),
      (Some (PStr (HeroContent.secondaryCtaUrl (heroContent b))),
       HeroContent.secondaryCtaText (heroContent b))]"
    unfolding hero_some elems_link_render r
    using ne default_ctaUrl_nonempty [of b]
    by (simp add: elems_link_primaryCta elems_link_secondaryCta href_primaryCta
          href_secondaryCta text_primaryCta text_secondaryCta)
  show ?thesis
    unfolding r(1,3,4,5) using grid links cfg r(2) by simp
qed

subsection \<open>The default booking link\<close>

text \<open>
  C10: the default primary URL is \<open>bookingUrl\<close> when that is a non-empty string and
  \<open>/contact\<close> otherwise; so without a \<open>ctaUrl\<close> override the resolved URL is the default,
  it is not empty, and the primary link is there exactly when its resolved text is
  non-empty.
\<close>

theorem default_cta_url:
  assumes "PhysiotherapyHeroProps.ctaUrl p = None"
  shows "HeroContent.ctaUrl (heroContent b) =
      (case b of None \<Rightarrow> ''/contact'' | Some s \<Rightarrow> if s \<noteq> [] then s else ''/contact'') \<and>
    displayCtaUrl b p = HeroContent.ctaUrl (heroContent b) \<and>
    displayCtaUrl b p \<noteq> [] \<and>
    (is_element ''Link'' (primaryCta (displayCtaText b p) (displayCtaUrl b p)) \<longleftrightarrow>
       displayCtaText b p \<noteq> [])"
proof -
  have cfg: "HeroContent.ctaUrl (heroContent b) =
      (case b of None \<Rightarrow> ''/contact'' | Some s \<Rightarrow> if s \<noteq> [] then s else ''/contact'')"
    by (simp add: heroContent_def js_or_def truthy_def split: option.split)
  have res: "displayCtaUrl b p = HeroContent.ctaUrl (heroContent b)"
    using assms by (simp add: displayCtaUrl_def nullish_def)
  have ne: "displayCtaUrl b p \<noteq> []"
    unfolding res by (rule default_ctaUrl_nonempty)
  from cfg res ne show ?thesis
    by (simp add: is_link_primaryCta)
qed

theorem default_cta_url_witness:
  "PhysiotherapyHeroProps.ctaUrl empty_props = None \<and>
   displayCtaUrl (Some '''') empty_props = ''/contact'' \<and>
   is_element ''Link''
     (primaryCta (displayCtaText (Some '''') empty_props) (displayCtaUrl (Some '''') empty_props))"
proof -
  have h: "PhysiotherapyHeroProps.ctaUrl empty_props = None"
    by (simp add: empty_props_def)
  have t: "displayCtaText (Some '''') empty_props \<noteq> []"
    by (simp add: displayCtaText_def nullish_def empty_props_def heroContent_def)
  from default_cta_url [OF h, of "Some ''''"] h t show ?thesis
    by auto
qed

end
